theory Spec2Isabelle
  imports Main "HOL-Library.Word"
begin

section \<open>The framework types used by \<^verbatim>\<open>examples/cpptest/main.cpp\<close>\<close>

text \<open>
  \<^verbatim>\<open>main.cpp\<close> includes \<^verbatim>\<open>hello.h\<close>, the header generated for the component
  \<^verbatim>\<open>Hello\<close>, and through it the framework's \<^verbatim>\<open>Property\<close>, its signal type and
  \<^verbatim>\<open>sixtyfps::run\<close>. None of them is among the sources at hand. The types are
  modelled from the specification; what the specification leaves open (the integer
  type of \<^verbatim>\<open>counter\<close>, the state the constructor leaves, the function
  \<^verbatim>\<open>run\<close>) is a parameter.
\<close>

text \<open>
  Modelled from the spec: the class \<^verbatim>\<open>Property<T>\<close>, declared in a header that is
  missing. Section 3 gives a property get/set semantics: a cell that holds one value.
\<close>

datatype 'a Property = Property 'a

text \<open>
  Modelled from the spec: \<^verbatim>\<open>Property<T>::get\<close>, missing with the class. Section 9:
  a plain getter, whose argument (here always \<^verbatim>\<open>nullptr\<close>, modelled as \<open>None\<close>)
  carries no meaning.
\<close>

fun Property_get :: "'a Property \<Rightarrow> unit option \<Rightarrow> 'a" where
  "Property_get (Property v) ctx = v"

text \<open>
  Modelled from the spec: \<^verbatim>\<open>Property<T>::set\<close>, missing with the class. The cell
  holds the new value.
\<close>

fun Property_set :: "'a \<Rightarrow> 'a Property \<Rightarrow> 'a Property" where
  "Property_set v (Property old) = Property v"

text \<open>
  Modelled from the spec: the signal type of the members \<^verbatim>\<open>foobar\<close>,
  \<^verbatim>\<open>plus_clicked\<close> and \<^verbatim>\<open>minus_clicked\<close>, declared in a header that is missing.
  Section 4.1: a signal has a single slot, which holds one handler or none.
\<close>

datatype 'h Signal = Signal (handler: "'h option")

text \<open>
  Modelled from the spec: \<^verbatim>\<open>set_handler\<close>, missing with the signal type. Section
  4.1: it overwrites any handler set before.
\<close>

fun set_handler :: "'h \<Rightarrow> 'h Signal \<Rightarrow> 'h Signal" where
  "set_handler h (Signal old) = Signal (Some h)"

text \<open>
  Modelled from the spec: the firing of a signal, done by the framework. Section 4.1:
  the registered handler is invoked whenever the signal fires. A signal with an
  empty slot has nothing to invoke. \<open>invoke\<close> runs a handler on the state.
\<close>

fun emit :: "('h \<Rightarrow> 's \<Rightarrow> 's) \<Rightarrow> 'h Signal \<Rightarrow> 's \<Rightarrow> 's" where
  "emit invoke (Signal None) s = s"
| "emit invoke (Signal (Some h)) s = invoke h s"

text \<open>
  The three lambdas of \<^verbatim>\<open>main\<close> (lines 7, 11 and 16). They capture nothing
  (\<^verbatim>\<open>[]\<close>) and reach the component through its static name, so a closure is
  identified by its code alone; \<open>call\<close> below runs it.
\<close>

datatype closure = Foobar_handler | Plus_clicked_handler | Minus_clicked_handler

text \<open>
  Modelled from the spec: the generated class \<^verbatim>\<open>Hello\<close> of the missing
  \<^verbatim>\<open>hello.h\<close>. Section 3: a mutable integer property \<^verbatim>\<open>counter\<close> and the three
  signal slots \<^verbatim>\<open>foobar\<close>, \<^verbatim>\<open>plus_clicked\<close> and \<^verbatim>\<open>minus_clicked\<close>. \<open>'i\<close> is
  the integer type of \<^verbatim>\<open>counter\<close>.
\<close>

record 'i Hello =
  counter :: "'i Property"
  foobar :: "closure Signal"
  plus_clicked :: "closure Signal"
  minus_clicked :: "closure Signal"

text \<open>The names of the three signals, and the member access \<^verbatim>\<open>c.sig\<close>.\<close>

datatype signal = Foobar | Plus_clicked | Minus_clicked

fun slot :: "signal \<Rightarrow> 'i Hello \<Rightarrow> closure Signal" where
  "slot Foobar c = foobar c"
| "slot Plus_clicked c = plus_clicked c"
| "slot Minus_clicked c = minus_clicked c"

text \<open>
  The statement \<^verbatim>\<open>c.sig.set_handler(h)\<close>, the operation \<^verbatim>\<open>attach\<close> of
  section 4.1.
\<close>

fun attach :: "signal \<Rightarrow> closure \<Rightarrow> 'i Hello \<Rightarrow> 'i Hello" where
  "attach Foobar h c = c\<lparr>foobar := set_handler h (foobar c)\<rparr>"
| "attach Plus_clicked h c = c\<lparr>plus_clicked := set_handler h (plus_clicked c)\<rparr>"
| "attach Minus_clicked h c = c\<lparr>minus_clicked := set_handler h (minus_clicked c)\<rparr>"

text \<open>
  A component as a constructor may leave it: the counter at \<open>v\<close> and no handler
  attached. It stands for the result of the generated constructor in the concrete
  instances below.
\<close>

definition fresh_Hello :: "'i \<Rightarrow> 'i Hello" where
  "fresh_Hello v =
     \<lparr>counter = Property v, foobar = Signal None, plus_clicked = Signal None,
      minus_clicked = Signal None\<rparr>"

section \<open>The process state\<close>

text \<open>
  Objects live in a store: \<open>objs\<close> gives the contents of every address, \<open>live\<close>
  the addresses at which a \<^verbatim>\<open>Hello\<close> has been constructed. \<open>cout\<close> is the text
  written to \<^verbatim>\<open>std::cout\<close> so far.
\<close>

type_synonym addr = nat

record 'i world =
  objs :: "addr \<Rightarrow> 'i Hello"
  live :: "addr set"
  cout :: string

definition process_start :: "(addr \<Rightarrow> 'i Hello) \<Rightarrow> 'i world" where
  "process_start mem = \<lparr>objs = mem, live = {}, cout = []\<rparr>"

text \<open>The storage of \<^verbatim>\<open>static Hello component;\<close> (line 5).\<close>

definition component :: addr where
  "component = 0"

definition construct :: "addr \<Rightarrow> 'i Hello \<Rightarrow> 'i world \<Rightarrow> 'i world" where
  "construct a init w = w\<lparr>objs := (objs w)(a := init), live := insert a (live w)\<rparr>"

definition update_obj :: "addr \<Rightarrow> ('i Hello \<Rightarrow> 'i Hello) \<Rightarrow> 'i world \<Rightarrow> 'i world" where
  "update_obj a f w = w\<lparr>objs := (objs w)(a := f (objs w a))\<rparr>"

text \<open>The value of \<^verbatim>\<open>component.counter\<close>.\<close>

definition counter_value :: "'i world \<Rightarrow> 'i" where
  "counter_value w = Property_get (counter (objs w component)) None"

section \<open>The handlers\<close>

text \<open>\<^verbatim>\<open>std::endl\<close> writes a newline (and flushes the stream).\<close>

definition endl :: string where
  "endl = [CHR 0x0A]"

text \<open>
  Lines 7 to 9:
  \<^verbatim>\<open>std::cout << "Hello from C++" << std::endl;\<close>
\<close>

definition foobar_handler :: "'i world \<Rightarrow> 'i world" where
  "foobar_handler w = w\<lparr>cout := cout w @ ''Hello from C++'' @ endl\<rparr>"

text \<open>
  Lines 11 to 14:
  \<^verbatim>\<open>auto &counter = component.counter; counter.set(counter.get(nullptr) + 1);\<close>
  The counter is a machine integer of \<open>LENGTH('w)\<close> bits, and the sum that is stored
  is the sum in that type: two's complement, which is what C++ prescribes for an
  unsigned type and for the conversion of a wider sum, and what the hardware does
  for a signed one.
\<close>

definition plus_clicked_handler :: "'w::len word world \<Rightarrow> 'w word world" where
  "plus_clicked_handler w =
     update_obj component
       (\<lambda>c. c\<lparr>counter := Property_set (Property_get (counter c) None + 1) (counter c)\<rparr>) w"

text \<open>
  Lines 16 to 19:
  \<^verbatim>\<open>auto &counter = component.counter; counter.set(counter.get(nullptr) - 1);\<close>
\<close>

definition minus_clicked_handler :: "'w::len word world \<Rightarrow> 'w word world" where
  "minus_clicked_handler w =
     update_obj component
       (\<lambda>c. c\<lparr>counter := Property_set (Property_get (counter c) None - 1) (counter c)\<rparr>) w"

fun call :: "closure \<Rightarrow> 'w::len word world \<Rightarrow> 'w word world" where
  "call Foobar_handler w = foobar_handler w"
| "call Plus_clicked_handler w = plus_clicked_handler w"
| "call Minus_clicked_handler w = minus_clicked_handler w"

section \<open>Firing signals\<close>

text \<open>
  Modelled from the spec: the delivery of a signal by the framework's event loop,
  which is not among the sources. Section 4.1: a firing invokes the handler attached
  to the signal, synchronously. \<open>fire a sig\<close> fires the signal \<open>sig\<close> of the object
  at \<open>a\<close>.
\<close>

definition fire :: "addr \<Rightarrow> signal \<Rightarrow> 'w::len word world \<Rightarrow> 'w word world" where
  "fire a sig w = emit call (slot sig (objs w a)) w"

text \<open>
  Modelled from the spec: a stretch of the event loop, which delivers a finite
  sequence of firings one after the other (sections 4.1 and 5).
\<close>

fun fire_all :: "addr \<Rightarrow> signal list \<Rightarrow> 'w::len word world \<Rightarrow> 'w word world" where
  "fire_all a [] w = w"
| "fire_all a (sig # sigs) w = fire_all a sigs (fire a sig w)"

text \<open>The handler that a firing of \<open>sig\<close> at the object \<open>a\<close> invokes, if any.\<close>

definition invoked :: "addr \<Rightarrow> signal \<Rightarrow> 'i world \<Rightarrow> closure option" where
  "invoked a sig w = handler (slot sig (objs w a))"

section \<open>\<^verbatim>\<open>main\<close>\<close>

text \<open>
  Lines 5 to 19: the static component is constructed (\<open>init\<close> is what the generated
  constructor produces) and the three handlers are attached, in this order.
\<close>

definition main_setup :: "'w::len word Hello \<Rightarrow> 'w word world \<Rightarrow> 'w word world" where
  "main_setup init w0 =
     (let w1 = construct component init w0;
          w2 = update_obj component (attach Foobar Foobar_handler) w1;
          w3 = update_obj component (attach Plus_clicked Plus_clicked_handler) w2;
          w4 = update_obj component (attach Minus_clicked Minus_clicked_handler) w3
      in w4)"

text \<open>
  Line 21 calls \<^verbatim>\<open>sixtyfps::run(&component)\<close> as a statement, and nothing follows
  it: control reaches the end of \<^verbatim>\<open>main\<close>, which in C++ is a \<^verbatim>\<open>return 0\<close>.
  \<open>run\<close> is the framework's function. \<open>Some (r, w')\<close> is a call that returns \<open>r\<close>
  to \<^verbatim>\<open>main\<close> and leaves the process in \<open>w'\<close>; \<open>None\<close> is a call that never hands
  control back. The result of \<open>main\<close> is the value \<^verbatim>\<open>main\<close> returns, which is the
  exit code of the process, and the final state.
\<close>

definition main ::
  "'w::len word Hello \<Rightarrow> (addr \<Rightarrow> 'w word world \<Rightarrow> ('r \<times> 'w word world) option) \<Rightarrow>
     'w word world \<Rightarrow> (int \<times> 'w word world) option" where
  "main init run w0 =
     (case run component (main_setup init w0) of
        None \<Rightarrow> None
      | Some (r, w') \<Rightarrow> Some (0, w'))"

text \<open>
  The state in which \<^verbatim>\<open>main\<close> calls \<^verbatim>\<open>run\<close> when the constructor has left the
  counter at \<open>c\<close>.
\<close>

definition started :: "'w::len word \<Rightarrow> 'w word world" where
  "started c = main_setup (fresh_Hello c) (process_start (\<lambda>a. fresh_Hello c))"

section \<open>Basic facts\<close>

lemma Property_get_set: "Property_get (Property_set v p) ctx = v"
  by (cases p) simp

lemma Property_set_get: "Property_set (Property_get p ctx) p = p"
  by (cases p) simp

lemma Property_set_set: "Property_set v (Property_set u p) = Property_set v p"
  by (cases p) simp

lemma Property_set_eq: "Property_set v p = Property v"
  by (cases p) simp

lemma set_handler_eq: "set_handler h s = Signal (Some h)"
  by (cases s) simp

lemma handler_set_handler: "handler (set_handler h s) = Some h"
  by (simp add: set_handler_eq)

lemma emit_handler:
  "emit f s w = (case handler s of None \<Rightarrow> w | Some h \<Rightarrow> f h w)"
proof (cases s)
  case (Signal x)
  then show ?thesis by (cases x) simp_all
qed

lemma slot_attach_same: "slot sig (attach sig h c) = set_handler h (slot sig c)"
  by (cases sig) simp_all

lemma attach_twice: "attach sig h2 (attach sig h1 c) = attach sig h2 c"
  by (cases sig) (simp_all add: set_handler_eq)

lemma update_obj_id: "update_obj a (\<lambda>c. c) w = w"
  by (simp add: update_obj_def)

lemma update_obj_twice: "update_obj a f (update_obj a g w) = update_obj a (\<lambda>c. f (g c)) w"
  by (simp add: update_obj_def)

lemma counter_value_plus:
  "counter_value (plus_clicked_handler w) = counter_value w + 1"
  by (simp add: counter_value_def plus_clicked_handler_def update_obj_def Property_get_set)

lemma counter_value_minus:
  "counter_value (minus_clicked_handler w) = counter_value w - 1"
  by (simp add: counter_value_def minus_clicked_handler_def update_obj_def Property_get_set)

lemma objs_plus:
  "objs (plus_clicked_handler w) a =
     (if a = component
      then (objs w component)\<lparr>counter := Property (counter_value w + 1)\<rparr>
      else objs w a)"
  by (simp add: counter_value_def plus_clicked_handler_def update_obj_def Property_set_eq)

lemma objs_minus:
  "objs (minus_clicked_handler w) a =
     (if a = component
      then (objs w component)\<lparr>counter := Property (counter_value w - 1)\<rparr>
      else objs w a)"
  by (simp add: counter_value_def minus_clicked_handler_def update_obj_def Property_set_eq)

lemma objs_call:
  "objs (call h w) = (objs w)(component :=
      (case h of
         Foobar_handler \<Rightarrow> (\<lambda>c. c)
       | Plus_clicked_handler \<Rightarrow>
           (\<lambda>c. c\<lparr>counter := Property_set (Property_get (counter c) None + 1) (counter c)\<rparr>)
       | Minus_clicked_handler \<Rightarrow>
           (\<lambda>c. c\<lparr>counter := Property_set (Property_get (counter c) None - 1) (counter c)\<rparr>))
      (objs w component))"
  by (cases h)
     (simp_all add: foobar_handler_def plus_clicked_handler_def minus_clicked_handler_def
        update_obj_def)

lemma slot_foobar: "slot sig (objs (foobar_handler w) a) = slot sig (objs w a)"
  by (simp add: foobar_handler_def)

lemma slot_plus: "slot sig (objs (plus_clicked_handler w) a) = slot sig (objs w a)"
  by (cases sig) (simp_all add: plus_clicked_handler_def update_obj_def)

lemma slot_minus: "slot sig (objs (minus_clicked_handler w) a) = slot sig (objs w a)"
  by (cases sig) (simp_all add: minus_clicked_handler_def update_obj_def)

lemma slot_call: "slot sig (objs (call h w) a) = slot sig (objs w a)"
  by (cases h) (simp_all add: slot_foobar slot_plus slot_minus)

lemma live_call: "live (call h w) = live w"
  by (cases h)
     (simp_all add: foobar_handler_def plus_clicked_handler_def minus_clicked_handler_def
        update_obj_def)

lemma slot_fire: "slot sig (objs (fire a' sig' w) a) = slot sig (objs w a)"
  by (simp add: fire_def emit_handler slot_call split: option.split)

lemma live_fire: "live (fire a sig w) = live w"
  by (simp add: fire_def emit_handler live_call split: option.split)

text \<open>No firing changes a slot or the set of live objects: induction on the firings.\<close>

lemma slot_fire_all: "slot sig (objs (fire_all a' sigs w) a) = slot sig (objs w a)"
  by (induction sigs arbitrary: w) (simp_all add: slot_fire)

lemma live_fire_all: "live (fire_all a sigs w) = live w"
  by (induction sigs arbitrary: w) (simp_all add: live_fire)

lemma objs_main_setup:
  "objs (main_setup init w0) =
     (objs w0)(component :=
        \<lparr>counter = counter init, foobar = Signal (Some Foobar_handler),
         plus_clicked = Signal (Some Plus_clicked_handler),
         minus_clicked = Signal (Some Minus_clicked_handler)\<rparr>)"
  by (cases init)
     (simp add: main_setup_def construct_def update_obj_def Let_def set_handler_eq)

lemma live_main_setup: "live (main_setup init w0) = insert component (live w0)"
  by (simp add: main_setup_def construct_def update_obj_def Let_def)

lemma cout_main_setup: "cout (main_setup init w0) = cout w0"
  by (simp add: main_setup_def construct_def update_obj_def Let_def)

lemma counter_value_started: "counter_value (started c) = c"
  by (simp add: started_def counter_value_def objs_main_setup fresh_Hello_def)

subsection \<open>The integer value of a sum in a machine integer\<close>

lemma two_halves:
  "(2::int) ^ (LENGTH('w::len) - 1) + 2 ^ (LENGTH('w) - 1) = 2 ^ LENGTH('w)"
proof -
  have "LENGTH('w) = Suc (LENGTH('w) - 1)" by simp
  then have "(2::int) ^ LENGTH('w) = 2 * 2 ^ (LENGTH('w) - 1)"
    by (metis power_Suc)
  then show ?thesis by simp
qed

lemma sint_word_of_int_mod:
  "sint (word_of_int k :: 'w::len word) =
     (k + 2 ^ (LENGTH('w) - 1)) mod 2 ^ LENGTH('w) - 2 ^ (LENGTH('w) - 1)"
proof -
  have "Suc (LENGTH('w) - 1) = LENGTH('w)" by simp
  then show ?thesis
    by (simp add: sint_sbintrunc' signed_take_bit_eq_take_bit_shift take_bit_eq_mod)
qed

lemma sint_succ:
  "sint (c + 1 :: 'w::len word) =
     (sint c + 1 + 2 ^ (LENGTH('w) - 1)) mod 2 ^ LENGTH('w) - 2 ^ (LENGTH('w) - 1)"
proof -
  have "c + 1 = word_of_int (sint c + 1)" by simp
  then show ?thesis by (simp only: sint_word_of_int_mod)
qed

lemma sint_pred:
  "sint (c - 1 :: 'w::len word) =
     (sint c - 1 + 2 ^ (LENGTH('w) - 1)) mod 2 ^ LENGTH('w) - 2 ^ (LENGTH('w) - 1)"
proof -
  have "c - 1 = word_of_int (sint c - 1)" by simp
  then show ?thesis by (simp only: sint_word_of_int_mod)
qed

lemma uint_succ: "uint (c + 1 :: 'w::len word) = (uint c + 1) mod 2 ^ LENGTH('w)"
proof -
  have "c + 1 = word_of_int (uint c + 1)" by simp
  then show ?thesis by (simp only: uint_word_of_int)
qed

lemma uint_pred: "uint (c - 1 :: 'w::len word) = (uint c - 1) mod 2 ^ LENGTH('w)"
proof -
  have "c - 1 = word_of_int (uint c - 1)" by simp
  then show ?thesis by (simp only: uint_word_of_int)
qed

lemma sint_succ_no_overflow:
  assumes "sint (c :: 'w::len word) + 1 < 2 ^ (LENGTH('w) - 1)"
  shows "sint (c + 1) = sint c + 1"
proof -
  have lo: "- (2 ^ (LENGTH('w) - 1)) \<le> sint c" by (rule sint_ge)
  have "(sint c + 1 + 2 ^ (LENGTH('w) - 1)) mod 2 ^ LENGTH('w) = sint c + 1 + 2 ^ (LENGTH('w) - 1)"
    using lo assms two_halves [where 'w = 'w] by (intro mod_pos_pos_trivial) linarith+
  then show ?thesis by (simp add: sint_succ)
qed

lemma sint_pred_no_overflow:
  assumes "- (2 ^ (LENGTH('w) - 1)) \<le> sint (c :: 'w::len word) - 1"
  shows "sint (c - 1) = sint c - 1"
proof -
  have hi: "sint c < 2 ^ (LENGTH('w) - 1)" by (rule sint_lt)
  have "(sint c - 1 + 2 ^ (LENGTH('w) - 1)) mod 2 ^ LENGTH('w) = sint c - 1 + 2 ^ (LENGTH('w) - 1)"
    using hi assms two_halves [where 'w = 'w] by (intro mod_pos_pos_trivial) linarith+
  then show ?thesis by (simp add: sint_pred)
qed

lemma uint_succ_no_overflow:
  assumes "uint (c :: 'w::len word) + 1 < 2 ^ LENGTH('w)"
  shows "uint (c + 1) = uint c + 1"
proof -
  have "(uint c + 1) mod 2 ^ LENGTH('w) = uint c + 1"
    using assms by (intro mod_pos_pos_trivial) simp_all
  then show ?thesis by (simp add: uint_succ)
qed

lemma uint_pred_no_overflow:
  assumes "0 \<le> uint (c :: 'w::len word) - 1"
  shows "uint (c - 1) = uint c - 1"
proof -
  have hi: "uint c < 2 ^ LENGTH('w)" by (rule uint_lt2p)
  have "(uint c - 1) mod 2 ^ LENGTH('w) = uint c - 1"
    using assms hi by (intro mod_pos_pos_trivial) linarith+
  then show ?thesis by (simp add: uint_pred)
qed

lemma sint_max_word:
  "sint (word_of_int (2 ^ (LENGTH('w) - 1) - 1) :: 'w::len word) = 2 ^ (LENGTH('w) - 1) - 1"
proof -
  have "2 ^ (LENGTH('w) - 1) - 1 + 2 ^ (LENGTH('w) - 1) = (2::int) ^ LENGTH('w) - 1"
    using two_halves [where 'w = 'w] by simp
  moreover have "((2::int) ^ LENGTH('w) - 1) mod 2 ^ LENGTH('w) = 2 ^ LENGTH('w) - 1"
    by (rule mod_pos_pos_trivial) simp_all
  ultimately show ?thesis
    using two_halves [where 'w = 'w] by (simp only: sint_word_of_int_mod)
qed

lemma sint_max_word_succ:
  "sint ((word_of_int (2 ^ (LENGTH('w) - 1) - 1) :: 'w::len word) + 1) =
     - (2 ^ (LENGTH('w) - 1))"
proof -
  have "(word_of_int (2 ^ (LENGTH('w) - 1) - 1) :: 'w word) + 1 =
        word_of_int (2 ^ (LENGTH('w) - 1))"
    by simp
  then show ?thesis
    by (simp only: sint_word_of_int_mod two_halves [where 'w = 'w]) simp
qed

lemma sint_min_word:
  "sint (word_of_int (- (2 ^ (LENGTH('w) - 1))) :: 'w::len word) = - (2 ^ (LENGTH('w) - 1))"
  by (simp only: sint_word_of_int_mod) simp

lemma sint_min_word_pred:
  "sint ((word_of_int (- (2 ^ (LENGTH('w) - 1))) :: 'w::len word) - 1) =
     2 ^ (LENGTH('w) - 1) - 1"
proof -
  have "(word_of_int (- (2 ^ (LENGTH('w) - 1))) :: 'w word) - 1 =
        word_of_int (- (2 ^ (LENGTH('w) - 1)) - 1)"
    by simp
  moreover have "(- (2 ^ (LENGTH('w) - 1)) - 1 + 2 ^ (LENGTH('w) - 1)) mod 2 ^ LENGTH('w) =
        (2::int) ^ LENGTH('w) - 1"
    by (simp add: zmod_minus1)
  ultimately show ?thesis
    using two_halves [where 'w = 'w] by (simp only: sint_word_of_int_mod)
qed

lemma uint_minus_one: "uint (- 1 :: 'w::len word) = 2 ^ LENGTH('w) - 1"
  by (simp add: unsigned_minus_1_eq_mask mask_eq_exp_minus_1)


section \<open>The increment and decrement handlers\<close>

text \<open>
  C1, as the code has it. One call of the \<^verbatim>\<open>plus_clicked\<close> handler reads the counter
  of the component, adds 1 in the counter's integer type and writes the sum back:
  the counter holds \<open>c + 1\<close> in the arithmetic of that type. Read as an integer,
  signed or unsigned, the new value is the successor of the old whenever the
  successor is a value of the type. Nothing else changes: the signals of the
  component, every other object, the set of live objects and the output are as
  before.
\<close>

theorem plus_clicked_increments:
  "counter_value (plus_clicked_handler w) = counter_value w + 1
   \<and> (sint (counter_value w) + 1 < 2 ^ (LENGTH('w) - 1) \<longrightarrow>
        sint (counter_value (plus_clicked_handler w)) = sint (counter_value w) + 1)
   \<and> (uint (counter_value w) + 1 < 2 ^ LENGTH('w) \<longrightarrow>
        uint (counter_value (plus_clicked_handler w)) = uint (counter_value w) + 1)
   \<and> (\<forall>a. objs (plus_clicked_handler w) a =
        (if a = component
         then (objs w component)\<lparr>counter := Property (counter_value w + 1)\<rparr>
         else objs w a))
   \<and> live (plus_clicked_handler w) = live w
   \<and> cout (plus_clicked_handler w) = cout w"
  for w :: "'w::len word world"
proof -
  have "live (plus_clicked_handler w) = live w" "cout (plus_clicked_handler w) = cout w"
    by (simp_all add: plus_clicked_handler_def update_obj_def)
  then show ?thesis
    by (simp add: counter_value_plus objs_plus sint_succ_no_overflow uint_succ_no_overflow)
qed

text \<open>
  C1 at a 32-bit counter that holds 5: the successor 6 is a value of the type, and
  the handler leaves the counter at 6.
\<close>

theorem plus_clicked_increments_witness:
  "sint (counter_value (started (5 :: 32 word))) + 1 < 2 ^ (LENGTH(32) - 1)
   \<and> sint (counter_value (plus_clicked_handler (started (5 :: 32 word)))) = 6
   \<and> uint (counter_value (started (5 :: 32 word))) + 1 < 2 ^ LENGTH(32)
   \<and> uint (counter_value (plus_clicked_handler (started (5 :: 32 word)))) = 6"
  using plus_clicked_increments [of "started (5 :: 32 word)"]
  by (simp add: counter_value_started)

text \<open>
  C1 as stated fails at the largest value of the counter's type, whose successor is
  no value of the type. A 32-bit counter at 2147483647, read as a signed integer, is
  at -2147483648 after the handler; at 4294967295, read as an unsigned integer, it
  is at 0.
\<close>

theorem plus_clicked_counterexample:
  "sint (counter_value (started (2147483647 :: 32 word))) = 2147483647
   \<and> sint (counter_value (plus_clicked_handler (started (2147483647 :: 32 word)))) = - 2147483648
   \<and> sint (counter_value (plus_clicked_handler (started (2147483647 :: 32 word)))) \<noteq>
       sint (counter_value (started (2147483647 :: 32 word))) + 1
   \<and> uint (counter_value (started (4294967295 :: 32 word))) = 4294967295
   \<and> uint (counter_value (plus_clicked_handler (started (4294967295 :: 32 word)))) = 0
   \<and> uint (counter_value (plus_clicked_handler (started (4294967295 :: 32 word)))) \<noteq>
       uint (counter_value (started (4294967295 :: 32 word))) + 1"
  by (simp add: counter_value_plus counter_value_started)

text \<open>
  C2, as the code has it. One call of the \<^verbatim>\<open>minus_clicked\<close> handler reads the
  counter of the component, subtracts 1 in the counter's integer type and writes the
  difference back: the counter holds \<open>c - 1\<close> in the arithmetic of that type. Read as
  an integer, signed or unsigned, the new value is the predecessor of the old
  whenever the predecessor is a value of the type. Nothing else changes.
\<close>

theorem minus_clicked_decrements:
  "counter_value (minus_clicked_handler w) = counter_value w - 1
   \<and> (- (2 ^ (LENGTH('w) - 1)) \<le> sint (counter_value w) - 1 \<longrightarrow>
        sint (counter_value (minus_clicked_handler w)) = sint (counter_value w) - 1)
   \<and> (0 \<le> uint (counter_value w) - 1 \<longrightarrow>
        uint (counter_value (minus_clicked_handler w)) = uint (counter_value w) - 1)
   \<and> (\<forall>a. objs (minus_clicked_handler w) a =
        (if a = component
         then (objs w component)\<lparr>counter := Property (counter_value w - 1)\<rparr>
         else objs w a))
   \<and> live (minus_clicked_handler w) = live w
   \<and> cout (minus_clicked_handler w) = cout w"
  for w :: "'w::len word world"
proof -
  have "live (minus_clicked_handler w) = live w" "cout (minus_clicked_handler w) = cout w"
    by (simp_all add: minus_clicked_handler_def update_obj_def)
  then show ?thesis
    by (simp add: counter_value_minus objs_minus sint_pred_no_overflow uint_pred_no_overflow)
qed

text \<open>
  C2 at a 32-bit counter that holds 5: the predecessor 4 is a value of the type, and
  the handler leaves the counter at 4.
\<close>

theorem minus_clicked_decrements_witness:
  "- (2 ^ (LENGTH(32) - 1)) \<le> sint (counter_value (started (5 :: 32 word))) - 1
   \<and> sint (counter_value (minus_clicked_handler (started (5 :: 32 word)))) = 4
   \<and> 0 \<le> uint (counter_value (started (5 :: 32 word))) - 1
   \<and> uint (counter_value (minus_clicked_handler (started (5 :: 32 word)))) = 4"
  using minus_clicked_decrements [of "started (5 :: 32 word)"]
  by (simp add: counter_value_started)

text \<open>
  C2 as stated fails at the smallest value of the counter's type. A 32-bit counter at
  -2147483648, read as a signed integer, is at 2147483647 after the handler; at 0,
  read as an unsigned integer, it is at 4294967295.
\<close>

theorem minus_clicked_counterexample:
  "sint (counter_value (started (- 2147483648 :: 32 word))) = - 2147483648
   \<and> sint (counter_value (minus_clicked_handler (started (- 2147483648 :: 32 word)))) = 2147483647
   \<and> sint (counter_value (minus_clicked_handler (started (- 2147483648 :: 32 word)))) \<noteq>
       sint (counter_value (started (- 2147483648 :: 32 word))) - 1
   \<and> uint (counter_value (started (0 :: 32 word))) = 0
   \<and> uint (counter_value (minus_clicked_handler (started (0 :: 32 word)))) = 4294967295
   \<and> uint (counter_value (minus_clicked_handler (started (0 :: 32 word)))) \<noteq>
       uint (counter_value (started (0 :: 32 word))) - 1"
  by (simp add: counter_value_minus counter_value_started uint_minus_one)

text \<open>
  C3. The two handlers are inverse to each other: \<^verbatim>\<open>minus_clicked\<close> after
  \<^verbatim>\<open>plus_clicked\<close>, and \<^verbatim>\<open>plus_clicked\<close> after \<^verbatim>\<open>minus_clicked\<close>, give back the
  state they started from, and so the counter \<open>c\<close> they started from, for every
  \<open>c\<close>, the largest and the smallest value of the type included.
\<close>

theorem plus_minus_inverse:
  "minus_clicked_handler (plus_clicked_handler w) = w
   \<and> plus_clicked_handler (minus_clicked_handler w) = w
   \<and> counter_value (minus_clicked_handler (plus_clicked_handler w)) = counter_value w
   \<and> counter_value (plus_clicked_handler (minus_clicked_handler w)) = counter_value w"
proof -
  have a: "minus_clicked_handler (plus_clicked_handler w) = w"
    by (simp add: minus_clicked_handler_def plus_clicked_handler_def update_obj_twice
        Property_get_set Property_set_set Property_set_get update_obj_id)
  have b: "plus_clicked_handler (minus_clicked_handler w) = w"
    by (simp add: minus_clicked_handler_def plus_clicked_handler_def update_obj_twice
        Property_get_set Property_set_set Property_set_get update_obj_id)
  show ?thesis by (simp add: a b)
qed

section \<open>The notification handler\<close>

text \<open>
  C4. One call of the \<^verbatim>\<open>foobar\<close> handler appends the text \<^verbatim>\<open>Hello from C++\<close> and
  a newline to the output, which is one line more than before, and changes nothing
  else: every object, the counter of the component among them, and the set of live
  objects are as before.
\<close>

theorem foobar_notifies_once:
  "cout (foobar_handler w) = cout w @ ''Hello from C++'' @ [CHR 0x0A]
   \<and> count_list (cout (foobar_handler w)) (CHR 0x0A) = count_list (cout w) (CHR 0x0A) + 1
   \<and> objs (foobar_handler w) = objs w
   \<and> live (foobar_handler w) = live w
   \<and> counter_value (foobar_handler w) = counter_value w"
  by (simp add: foobar_handler_def endl_def counter_value_def)

section \<open>Firing the signals of the component\<close>

text \<open>
  C5. \<^verbatim>\<open>main\<close> has attached the handlers to a component whose counter is 0. Three
  firings of \<^verbatim>\<open>plus_clicked\<close> leave the counter at 3, and a firing of
  \<^verbatim>\<open>minus_clicked\<close> after them leaves it at 2. The same holds of three calls of the
  \<^verbatim>\<open>plus_clicked\<close> handler and one of the \<^verbatim>\<open>minus_clicked\<close> handler. On a 32-bit
  counter the values, read as integers, are 3 and 2.
\<close>

theorem scenario_three_plus_one_minus:
  "counter_value (main_setup (init\<lparr>counter := Property 0\<rparr>) (process_start mem)) = 0
   \<and> counter_value (fire_all component [Plus_clicked, Plus_clicked, Plus_clicked]
      (main_setup (init\<lparr>counter := Property 0\<rparr>) (process_start mem))) = 3
   \<and> counter_value
       (fire_all component [Plus_clicked, Plus_clicked, Plus_clicked, Minus_clicked]
         (main_setup (init\<lparr>counter := Property 0\<rparr>) (process_start mem))) = 2
   \<and> counter_value (plus_clicked_handler (plus_clicked_handler (plus_clicked_handler
        (main_setup (init\<lparr>counter := Property 0\<rparr>) (process_start mem))))) = 3
   \<and> counter_value (minus_clicked_handler
        (plus_clicked_handler (plus_clicked_handler (plus_clicked_handler
          (main_setup (init\<lparr>counter := Property 0\<rparr>) (process_start mem)))))) = 2
   \<and> sint (counter_value (fire_all component [Plus_clicked, Plus_clicked, Plus_clicked]
        (started (0 :: 32 word)))) = 3
   \<and> sint (counter_value
        (fire_all component [Plus_clicked, Plus_clicked, Plus_clicked, Minus_clicked]
          (started (0 :: 32 word)))) = 2"
proof -
  let ?w = "main_setup (init\<lparr>counter := Property 0\<rparr>) (process_start mem)"
  have p: "slot Plus_clicked (objs ?w component) = Signal (Some Plus_clicked_handler)"
    and m: "slot Minus_clicked (objs ?w component) = Signal (Some Minus_clicked_handler)"
    by (simp_all add: objs_main_setup)
  have z: "counter_value ?w = 0"
    by (simp add: counter_value_def objs_main_setup)
  have fired:
    "counter_value (fire_all component [Plus_clicked, Plus_clicked, Plus_clicked] ?w) = 3"
    "counter_value
       (fire_all component [Plus_clicked, Plus_clicked, Plus_clicked, Minus_clicked] ?w) = 2"
    by (simp_all add: fire_def slot_plus p m z counter_value_plus counter_value_minus
        del: slot.simps)
  have called:
    "counter_value (plus_clicked_handler (plus_clicked_handler (plus_clicked_handler ?w))) = 3"
    "counter_value (minus_clicked_handler
        (plus_clicked_handler (plus_clicked_handler (plus_clicked_handler ?w)))) = 2"
    by (simp_all add: z counter_value_plus counter_value_minus)
  have p32: "slot Plus_clicked (objs (started (0 :: 32 word)) component) =
        Signal (Some Plus_clicked_handler)"
    and m32: "slot Minus_clicked (objs (started (0 :: 32 word)) component) =
        Signal (Some Minus_clicked_handler)"
    by (simp_all add: started_def objs_main_setup)
  have at32:
    "sint (counter_value (fire_all component [Plus_clicked, Plus_clicked, Plus_clicked]
        (started (0 :: 32 word)))) = 3"
    "sint (counter_value
        (fire_all component [Plus_clicked, Plus_clicked, Plus_clicked, Minus_clicked]
          (started (0 :: 32 word)))) = 2"
    by (simp_all add: fire_def slot_plus p32 m32 counter_value_started counter_value_plus
        counter_value_minus del: slot.simps)
  from z fired called at32 show ?thesis by (intro conjI)
qed

section \<open>The exit code\<close>

text \<open>
  C6, as the code has it. \<^verbatim>\<open>main\<close> calls \<^verbatim>\<open>run\<close> as a statement and has no
  \<^verbatim>\<open>return\<close>: when \<^verbatim>\<open>run\<close> returns, whatever value it returns, \<^verbatim>\<open>main\<close> returns
  0, and when \<^verbatim>\<open>run\<close> does not return, \<^verbatim>\<open>main\<close> returns nothing.
\<close>

theorem main_exit_code_zero:
  "map_option fst (main init run w0) =
     (case run component (main_setup init w0) of None \<Rightarrow> None | Some x \<Rightarrow> Some 0)"
  by (simp add: main_def split: option.split prod.split)

text \<open>
  C6 as stated fails: with a \<^verbatim>\<open>run\<close> that returns 1, the exit code of \<^verbatim>\<open>main\<close> is
  0 and not 1.
\<close>

theorem main_exit_code_counterexample:
  "map_option fst
     (main (fresh_Hello (0 :: 32 word)) (\<lambda>a w. Some (1 :: int, w))
        (process_start (\<lambda>a. fresh_Hello 0))) = Some 0
   \<and> map_option fst
     (main (fresh_Hello (0 :: 32 word)) (\<lambda>a w. Some (1 :: int, w))
        (process_start (\<lambda>a. fresh_Hello 0))) \<noteq> Some 1"
  by (simp add: main_def)

section \<open>The order of events in \<^verbatim>\<open>main\<close>\<close>

text \<open>
  C7. When \<^verbatim>\<open>main\<close> calls \<^verbatim>\<open>run\<close>, the component has been constructed and is the
  only one, each of the three signals has its handler attached, no handler has run
  yet (the counter is as the constructor left it, nothing has been written), and
  \<^verbatim>\<open>run\<close> receives the address of the component. \<^verbatim>\<open>main\<close> returns exactly when
  \<^verbatim>\<open>run\<close> returns, and then the final state is the one \<^verbatim>\<open>run\<close> left: nothing of
  the program runs after it.
\<close>

theorem main_lifecycle:
  "live (main_setup init (process_start mem)) = {component}
   \<and> invoked component Foobar (main_setup init (process_start mem)) = Some Foobar_handler
   \<and> invoked component Plus_clicked (main_setup init (process_start mem)) =
       Some Plus_clicked_handler
   \<and> invoked component Minus_clicked (main_setup init (process_start mem)) =
       Some Minus_clicked_handler
   \<and> counter (objs (main_setup init (process_start mem)) component) = counter init
   \<and> cout (main_setup init (process_start mem)) = []
   \<and> main init run (process_start mem) =
       map_option (\<lambda>(r, w'). (0, w')) (run component (main_setup init (process_start mem)))
   \<and> (main init run (process_start mem) = None) =
       (run component (main_setup init (process_start mem)) = None)
   \<and> map_option snd (main init run (process_start mem)) =
       map_option snd (run component (main_setup init (process_start mem)))"
  by (simp add: live_main_setup objs_main_setup cout_main_setup invoked_def process_start_def
      main_def split: option.split)

section \<open>Attaching a handler twice\<close>

text \<open>
  C8. A signal holds one handler. Attaching \<open>h2\<close> to a signal that holds \<open>h1\<close> leaves
  the state that attaching \<open>h2\<close> alone would have left. After any sequence of
  firings that follows, the handler that a firing of this signal invokes is \<open>h2\<close>,
  and the firing does what a call of \<open>h2\<close> does: \<open>h1\<close> is not invoked through this
  signal again.
\<close>

theorem set_handler_replaces:
  "update_obj a (attach sig h2) (update_obj a (attach sig h1) w) = update_obj a (attach sig h2) w
   \<and> invoked a sig
        (fire_all a sigs (update_obj a (attach sig h2) (update_obj a (attach sig h1) w))) = Some h2
   \<and> fire a sig (fire_all a sigs (update_obj a (attach sig h2) (update_obj a (attach sig h1) w)))
       = call h2 (fire_all a sigs (update_obj a (attach sig h2) (update_obj a (attach sig h1) w)))"
proof -
  let ?w = "update_obj a (attach sig h2) (update_obj a (attach sig h1) w)"
  have a: "?w = update_obj a (attach sig h2) w"
    by (simp add: update_obj_def attach_twice)
  have "slot sig (objs (fire_all a sigs ?w) a) = slot sig (objs ?w a)"
    by (rule slot_fire_all)
  also have "\<dots> = set_handler h2 (slot sig (objs w a))"
    by (simp add: update_obj_def slot_attach_same attach_twice)
  finally have s: "slot sig (objs (fire_all a sigs ?w) a) = set_handler h2 (slot sig (objs w a))" .
  have b: "invoked a sig (fire_all a sigs ?w) = Some h2"
    unfolding invoked_def s by (rule handler_set_handler)
  have c: "fire a sig (fire_all a sigs ?w) = call h2 (fire_all a sigs ?w)"
    unfolding fire_def s by (simp add: emit_handler handler_set_handler)
  from a b c show ?thesis by simp
qed

section \<open>The one component\<close>

text \<open>
  C9. From the construction of the static component on, through the attachment of
  the handlers and any sequence of firings, exactly one \<^verbatim>\<open>Hello\<close> is live: the one
  at the address \<open>component\<close>. Each signal of it has a handler attached, and a call
  of that handler reads and writes the store at \<open>component\<close> alone: the object there
  becomes a function of what it was, every other object and the set of live objects
  stay as they are. So the counter a handler reads and writes is the counter of
  this one component.
\<close>

theorem single_shared_component:
  "live (fire_all component sigs (main_setup init (process_start mem))) = {component}
   \<and> card (live (fire_all component sigs (main_setup init (process_start mem)))) = 1
   \<and> (\<exists>h f. invoked component sig (fire_all component sigs (main_setup init (process_start mem)))
          = Some h
        \<and> (\<forall>w :: 'w::len word world.
              objs (call h w) = (objs w)(component := f (objs w component))
              \<and> live (call h w) = live w))"
proof -
  let ?w = "fire_all component sigs (main_setup init (process_start mem))"
  have l: "live ?w = {component}"
    by (simp add: live_fire_all live_main_setup process_start_def)
  have "slot sig (objs ?w component) =
        slot sig (objs (main_setup init (process_start mem)) component)"
    by (rule slot_fire_all)
  then have "\<exists>h. invoked component sig ?w = Some h"
    by (cases sig) (simp_all add: invoked_def objs_main_setup)
  then obtain h where h: "invoked component sig ?w = Some h" ..
  have "\<exists>f. \<forall>w :: 'w word world.
          objs (call h w) = (objs w)(component := f (objs w component))
          \<and> live (call h w) = live w"
    using objs_call [of h] live_call [of h] by blast
  with l h show ?thesis by auto
qed

section \<open>The width of the counter\<close>

text \<open>
  C10. The counter is a machine integer of \<open>LENGTH('w)\<close> bits, and the handlers
  compute in it: the new value is the successor, or the predecessor, of the old one
  modulo \<open>2 ^ LENGTH('w)\<close>, read as an unsigned or as a signed integer. At the largest
  signed value the increment gives the smallest, at the smallest the decrement gives
  the largest; at the largest unsigned value the increment gives 0, and at 0 the
  decrement gives the largest.
\<close>

theorem counter_wraps_around:
  "uint (counter_value (plus_clicked_handler w)) =
     (uint (counter_value w) + 1) mod 2 ^ LENGTH('w)
   \<and> uint (counter_value (minus_clicked_handler w)) =
     (uint (counter_value w) - 1) mod 2 ^ LENGTH('w)
   \<and> sint (counter_value (plus_clicked_handler w)) =
     (sint (counter_value w) + 1 + 2 ^ (LENGTH('w) - 1)) mod 2 ^ LENGTH('w)
       - 2 ^ (LENGTH('w) - 1)
   \<and> sint (counter_value (minus_clicked_handler w)) =
     (sint (counter_value w) - 1 + 2 ^ (LENGTH('w) - 1)) mod 2 ^ LENGTH('w)
       - 2 ^ (LENGTH('w) - 1)
   \<and> sint (counter_value (started (word_of_int (2 ^ (LENGTH('w) - 1) - 1) :: 'w word))) =
     2 ^ (LENGTH('w) - 1) - 1
   \<and> sint (counter_value (plus_clicked_handler
        (started (word_of_int (2 ^ (LENGTH('w) - 1) - 1) :: 'w word)))) =
     - (2 ^ (LENGTH('w) - 1))
   \<and> sint (counter_value (started (word_of_int (- (2 ^ (LENGTH('w) - 1))) :: 'w word))) =
     - (2 ^ (LENGTH('w) - 1))
   \<and> sint (counter_value (minus_clicked_handler
        (started (word_of_int (- (2 ^ (LENGTH('w) - 1))) :: 'w word)))) =
     2 ^ (LENGTH('w) - 1) - 1
   \<and> uint (counter_value (started (- 1 :: 'w word))) = 2 ^ LENGTH('w) - 1
   \<and> uint (counter_value (plus_clicked_handler (started (- 1 :: 'w word)))) = 0
   \<and> uint (counter_value (started (0 :: 'w word))) = 0
   \<and> uint (counter_value (minus_clicked_handler (started (0 :: 'w word)))) =
     2 ^ LENGTH('w) - 1"
  for w :: "'w::len word world"
proof -
  have general:
    "uint (counter_value (plus_clicked_handler w)) =
       (uint (counter_value w) + 1) mod 2 ^ LENGTH('w)"
    "uint (counter_value (minus_clicked_handler w)) =
       (uint (counter_value w) - 1) mod 2 ^ LENGTH('w)"
    "sint (counter_value (plus_clicked_handler w)) =
       (sint (counter_value w) + 1 + 2 ^ (LENGTH('w) - 1)) mod 2 ^ LENGTH('w)
         - 2 ^ (LENGTH('w) - 1)"
    "sint (counter_value (minus_clicked_handler w)) =
       (sint (counter_value w) - 1 + 2 ^ (LENGTH('w) - 1)) mod 2 ^ LENGTH('w)
         - 2 ^ (LENGTH('w) - 1)"
    by (simp_all only: counter_value_plus counter_value_minus uint_succ uint_pred
        sint_succ sint_pred)
  have signed:
    "sint (counter_value (started (word_of_int (2 ^ (LENGTH('w) - 1) - 1) :: 'w word))) =
       2 ^ (LENGTH('w) - 1) - 1"
    "sint (counter_value (plus_clicked_handler
        (started (word_of_int (2 ^ (LENGTH('w) - 1) - 1) :: 'w word)))) =
       - (2 ^ (LENGTH('w) - 1))"
    "sint (counter_value (started (word_of_int (- (2 ^ (LENGTH('w) - 1))) :: 'w word))) =
       - (2 ^ (LENGTH('w) - 1))"
    "sint (counter_value (minus_clicked_handler
        (started (word_of_int (- (2 ^ (LENGTH('w) - 1))) :: 'w word)))) =
       2 ^ (LENGTH('w) - 1) - 1"
    by (simp_all only: counter_value_plus counter_value_minus counter_value_started
        sint_max_word sint_max_word_succ sint_min_word sint_min_word_pred)
  have unsigned:
    "uint (counter_value (started (- 1 :: 'w word))) = 2 ^ LENGTH('w) - 1"
    "uint (counter_value (plus_clicked_handler (started (- 1 :: 'w word)))) = 0"
    "uint (counter_value (started (0 :: 'w word))) = 0"
    "uint (counter_value (minus_clicked_handler (started (0 :: 'w word)))) = 2 ^ LENGTH('w) - 1"
    by (simp_all add: counter_value_plus counter_value_minus counter_value_started
        uint_minus_one)
  from general signed unsigned show ?thesis by (intro conjI)
qed

end
